theory Spec2Isabelle
  imports Main "HOL-Library.Sublist" "HOL-Library.Word"
begin

unbundle bit_operations_syntax

section \<open>Values shared by the handlers of clip\_api.py\<close>

text \<open>
  A Python \<open>str\<close> is modelled as a \<open>string\<close>. A character whose code is below 128 is
  the ASCII character of that code; a character whose code is 128 or more stands for a
  non-ASCII code point (the Latin-1 range), which is all the program distinguishes.
  Python \<open>bytes\<close> are lists of 8-bit words.
\<close>

type_synonym byte = "8 word"

text \<open>
  Exceptions are values. \<open>HTTPException\<close> is \<open>fastapi.HTTPException(status_code, detail)\<close>;
  \<open>ValueError\<close>, \<open>BinasciiError\<close> (\<open>binascii.Error\<close>) and \<open>IndexError\<close> are the
  built-in exceptions the decoding path can raise; \<open>HTTPError\<close> is
  \<open>requests.exceptions.HTTPError\<close>; \<open>ExternalError\<close> is any other \<open>Exception\<close> raised by
  an external collaborator (requests, PIL, clip, torch). Each carries the text that
  \<open>str(e)\<close> yields, except \<open>HTTPException\<close>, whose text is computed by \<open>str_exn\<close>.
\<close>

datatype exn =
    HTTPException nat string
  | ValueError string
  | BinasciiError string
  | IndexError string
  | HTTPError string
  | ExternalError string

text \<open>Decimal rendering of a natural number, as \<open>str(n)\<close> and \<open>f"{n}"\<close> give it.\<close>

definition digit_char :: "nat \<Rightarrow> char" where
  "digit_char d = ''0123456789'' ! d"

fun str_nat :: "nat \<Rightarrow> string" where
  "str_nat n = (if n < 10 then [digit_char n] else str_nat (n div 10) @ [digit_char (n mod 10)])"

declare str_nat.simps [simp del]

text \<open>
  \<open>str(e)\<close>. Starlette's \<open>HTTPException.__str__\<close> returns
  \<open>f"{self.status_code}: {self.detail}"\<close>; the other exceptions print their message.
\<close>

fun str_exn :: "exn \<Rightarrow> string" where
  "str_exn (HTTPException status_code detail) = str_nat status_code @ '': '' @ detail"
| "str_exn (ValueError m) = m"
| "str_exn (BinasciiError m) = m"
| "str_exn (IndexError m) = m"
| "str_exn (HTTPError m) = m"
| "str_exn (ExternalError m) = m"

section \<open>String operations used by process\_base64\_image\<close>

text \<open>\<open>sub in s\<close> on strings: \<open>sub\<close> occurs in \<open>s\<close> as a contiguous block.\<close>

fun str_contains :: "string \<Rightarrow> string \<Rightarrow> bool" where
  "str_contains sub [] = (sub = [])"
| "str_contains sub (c # cs) = (prefix sub (c # cs) \<or> str_contains sub cs)"

text \<open>
  \<open>s.split(sep)\<close>: the string is scanned from the left; at each occurrence of \<open>sep\<close>
  the piece collected so far is emitted and scanning resumes after the occurrence.
  \<open>cur\<close> is the piece being collected.
\<close>

function split_scan :: "string \<Rightarrow> string \<Rightarrow> string \<Rightarrow> string list" where
  "split_scan sep cur [] = [cur]"
| "split_scan sep cur (c # cs) =
     (if sep \<noteq> [] \<and> prefix sep (c # cs)
      then cur # split_scan sep [] (drop (length sep) (c # cs))
      else split_scan sep (cur @ [c]) cs)"
  by pat_completeness auto
termination
  by (relation "measure (\<lambda>(sep, cur, s). length s)") auto

text \<open>Python raises \<open>ValueError\<close> on an empty separator.\<close>

definition py_split :: "string \<Rightarrow> string \<Rightarrow> exn + string list" where
  "py_split sep s =
     (if sep = [] then Inl (ValueError ''empty separator'') else Inr (split_scan sep [] s))"

text \<open>\<open>xs[i]\<close> for a non-negative index: \<open>IndexError\<close> when out of range.\<close>

definition index :: "'a list \<Rightarrow> nat \<Rightarrow> exn + 'a" where
  "index xs i = (if i < length xs then Inr (xs ! i) else Inl (IndexError ''list index out of range''))"

section \<open>base64.b64decode\<close>

text \<open>
  \<open>base64.b64decode(s)\<close> with the default \<open>validate=False\<close>, as the program calls it.
  For a \<open>str\<close> argument the library first encodes it as ASCII
  (\<open>_bytes_from_decode_data\<close>), raising \<open>ValueError\<close> on a non-ASCII character, and then
  runs \<open>binascii.a2b_base64\<close> in non-strict mode (CPython 3.11).
\<close>

definition is_ascii :: "char \<Rightarrow> bool" where
  "is_ascii c = ((of_char c :: nat) < 128)"

definition byte_of_char :: "char \<Rightarrow> byte" where
  "byte_of_char c = word_of_nat (of_char c)"

definition bytes_from_decode_data :: "string \<Rightarrow> exn + byte list" where
  "bytes_from_decode_data s =
     (if list_all is_ascii s then Inr (map byte_of_char s)
      else Inl (ValueError ''string argument should contain only ASCII characters''))"

definition BASE64_PAD :: byte where
  "BASE64_PAD = 61"

text \<open>
  The decoding table: \<open>A-Z\<close> are 0..25, \<open>a-z\<close> 26..51, \<open>0-9\<close> 52..61, \<open>+\<close> 62,
  \<open>/\<close> 63; every other byte maps to 64, which marks it as not a base64 digit.
\<close>

definition table_a2b_base64 :: "byte \<Rightarrow> byte" where
  "table_a2b_base64 b =
     (if 65 \<le> b \<and> b \<le> 90 then b - 65
      else if 97 \<le> b \<and> b \<le> 122 then b - 71
      else if 48 \<le> b \<and> b \<le> 57 then b + 4
      else if b = 43 then 62
      else if b = 47 then 63
      else 64)"

text \<open>
  The loop of \<open>a2b_base64\<close> over the input bytes. \<open>quad_pos\<close> is the position inside the
  current group of four digits, \<open>leftchar\<close> the bits left over from the previous digit,
  \<open>pads\<close> the padding characters seen since the last digit and \<open>bin\<close> the output so far.
  A padding character that completes a group ends decoding at once; any other padding
  character and every byte that is not a base64 digit is skipped. At the end of the
  input an incomplete group is an error.
\<close>

fun a2b_loop :: "nat \<Rightarrow> byte \<Rightarrow> nat \<Rightarrow> byte list \<Rightarrow> byte list \<Rightarrow> exn + byte list" where
  "a2b_loop quad_pos leftchar pads bin [] =
     (if quad_pos \<noteq> 0 then
        (if quad_pos = 1 then
           Inl (BinasciiError (''Invalid base64-encoded string: number of data characters (''
                  @ str_nat (length bin div 3 * 4 + 1)
                  @ '') cannot be 1 more than a multiple of 4''))
         else Inl (BinasciiError ''Incorrect padding''))
      else Inr bin)"
| "a2b_loop quad_pos leftchar pads bin (this_ch # rest) =
     (if this_ch = BASE64_PAD then
        (if quad_pos \<ge> 2 then
           (if quad_pos + (pads + 1) \<ge> 4 then Inr bin
            else a2b_loop quad_pos leftchar (pads + 1) bin rest)
         else a2b_loop quad_pos leftchar pads bin rest)
      else if table_a2b_base64 this_ch \<ge> 64 then a2b_loop quad_pos leftchar pads bin rest
      else if quad_pos = 0 then
        a2b_loop 1 (table_a2b_base64 this_ch) 0 bin rest
      else if quad_pos = 1 then
        a2b_loop 2 (table_a2b_base64 this_ch AND 0x0f) 0
          (bin @ [push_bit 2 leftchar OR drop_bit 4 (table_a2b_base64 this_ch)]) rest
      else if quad_pos = 2 then
        a2b_loop 3 (table_a2b_base64 this_ch AND 0x03) 0
          (bin @ [push_bit 4 leftchar OR drop_bit 2 (table_a2b_base64 this_ch)]) rest
      else
        a2b_loop 0 0 0 (bin @ [push_bit 6 leftchar OR table_a2b_base64 this_ch]) rest)"

definition a2b_base64 :: "byte list \<Rightarrow> exn + byte list" where
  "a2b_base64 data = a2b_loop 0 0 0 [] data"

definition b64decode :: "string \<Rightarrow> exn + byte list" where
  "b64decode s =
     (case bytes_from_decode_data s of
        Inl e \<Rightarrow> Inl e
      | Inr data \<Rightarrow> a2b_base64 data)"

section \<open>process\_base64\_image\<close>

text \<open>
  The body of the \<open>try\<close> block: when \<open>'base64,'\<close> occurs in the string, the string is
  replaced by element 1 of its split at \<open>'base64,'\<close>; the result is decoded.
\<close>

definition process_base64_image_try :: "string \<Rightarrow> exn + byte list" where
  "process_base64_image_try base64_string =
     (case (if str_contains ''base64,'' base64_string
            then (case py_split ''base64,'' base64_string of
                    Inl e \<Rightarrow> Inl e
                  | Inr parts \<Rightarrow> index parts 1)
            else Inr base64_string) of
        Inl e \<Rightarrow> Inl e
      | Inr base64_string' \<Rightarrow> b64decode base64_string')"

text \<open>The \<open>except Exception as e\<close> clause turns every exception into an HTTP 422.\<close>

definition process_base64_image :: "string \<Rightarrow> exn + byte list" where
  "process_base64_image base64_string =
     (case process_base64_image_try base64_string of
        Inl e \<Rightarrow> Inl (HTTPException 422 (''Error processing base64 image: '' @ str_exn e))
      | Inr image_bytes \<Rightarrow> Inr image_bytes)"

section \<open>External collaborators and process-wide globals\<close>

text \<open>
  The reply of \<open>requests.get\<close>: the fields of \<open>requests.Response\<close> that the program
  and \<open>raise_for_status\<close> read.
\<close>

record response =
  status_code :: nat
  reason :: string
  url :: string
  content :: "byte list"

text \<open>
  \<open>Response.raise_for_status()\<close> of the requests library: it raises \<open>HTTPError\<close> for a
  status in 400..599 and returns normally for every other status.
\<close>

definition raise_for_status :: "response \<Rightarrow> exn + unit" where
  "raise_for_status r =
     (if 400 \<le> status_code r \<and> status_code r < 500 then
        Inl (HTTPError (str_nat (status_code r) @ '' Client Error: '' @ reason r
                          @ '' for url: '' @ url r))
      else if 500 \<le> status_code r \<and> status_code r < 600 then
        Inl (HTTPError (str_nat (status_code r) @ '' Server Error: '' @ reason r
                          @ '' for url: '' @ url r))
      else Inr ())"

text \<open>
  The contract of the \<open>timeout\<close> argument of \<open>requests.get\<close>, from the documentation of
  the requests library: the client gives up on a server that does not answer and raises
  a timeout exception instead of waiting. \<open>server url\<close> is \<open>None\<close> for a host that never
  answers and otherwise the outcome of the exchange. The message stands for the text of
  \<open>requests.exceptions.Timeout\<close>, shortened to its last part.
\<close>

definition get_with_timeout ::
  "(string \<Rightarrow> (exn + response) option) \<Rightarrow> string \<Rightarrow> nat \<Rightarrow> exn + response" where
  "get_with_timeout server url' timeout =
     (case server url' of
        None \<Rightarrow> Inl (ExternalError (''Read timed out. (read timeout='' @ str_nat timeout @ '')''))
      | Some outcome \<Rightarrow> outcome)"

text \<open>
  Everything the handlers reach through module-level names: the global \<open>device\<close>, the
  loaded CLIP model (\<open>encode_text\<close>, \<open>encode_image\<close>) with its \<open>preprocess\<close>, and the
  library calls \<open>clip.tokenize\<close>, \<open>requests.get(url, timeout=t)\<close> and \<open>Image.open\<close>.
  They are opaque: each either raises or returns. \<open>'f\<close> is the type of the numbers in
  an embedding, \<open>'i\<close> of a decoded image, \<open>'t\<close> of a preprocessed image tensor. A batch
  is a list; the encoders return one row per element of the batch.
\<close>

record ('f, 'i, 't) env =
  device :: string
  tokenize :: "string list \<Rightarrow> exn + int list list"
  encode_text :: "int list list \<Rightarrow> exn + 'f list list"
  requests_get :: "string \<Rightarrow> nat \<Rightarrow> exn + response"
  image_open :: "byte list \<Rightarrow> exn + 'i"
  preprocess :: "'i \<Rightarrow> exn + 't"
  encode_image :: "'t list \<Rightarrow> exn + 'f list list"

text \<open>Line 22: the device is chosen once, when the module is loaded.\<close>

definition startup :: "bool \<Rightarrow> ('f, 'i, 't) env \<Rightarrow> ('f, 'i, 't) env" where
  "startup cuda_is_available libs =
     libs\<lparr>device := (if cuda_is_available then ''cuda'' else ''cpu'')\<rparr>"

section \<open>The request and the response bodies\<close>

datatype InputType = Text | Image_url | Image_base64

record EmbeddingRequest =
  type :: InputType
  input :: string

text \<open>The values that occur in the dictionaries the handlers return.\<close>

datatype 'f py_value =
    PStr string
  | PInt int
  | PFloats "'f list"
  | PDict "(string \<times> 'f py_value) list"

type_synonym 'f py_dict = "(string \<times> 'f py_value) list"

section \<open>download\_image\<close>

definition download_image_try :: "('f, 'i, 't) env \<Rightarrow> string \<Rightarrow> exn + byte list" where
  "download_image_try env url' =
     (case requests_get env url' 10 of
        Inl e \<Rightarrow> Inl e
      | Inr response \<Rightarrow>
          (case raise_for_status response of
             Inl e \<Rightarrow> Inl e
           | Inr _ \<Rightarrow> Inr (content response)))"

definition download_image :: "('f, 'i, 't) env \<Rightarrow> string \<Rightarrow> exn + byte list" where
  "download_image env url' =
     (case download_image_try env url' of
        Inl e \<Rightarrow> Inl (HTTPException 422 (''Error downloading image: '' @ str_exn e))
      | Inr image_bytes \<Rightarrow> Inr image_bytes)"

section \<open>get\_embeddings\<close>

text \<open>Lines 87-91: the dictionary returned on success.\<close>

definition success_response :: "'f list \<Rightarrow> 'f py_dict" where
  "success_response embedding =
     [(''status'', PStr ''success''),
      (''embeddings'', PFloats embedding),
      (''embedding_dimension'', PInt (int (length embedding)))]"

text \<open>
  Lines 70-75 and 80-85, which are the same code: open the image, preprocess it, encode
  the batch of one and take row 0 of the result.
\<close>

definition embed_image :: "('f, 'i, 't) env \<Rightarrow> byte list \<Rightarrow> exn + 'f list" where
  "embed_image env image_bytes =
     (case image_open env image_bytes of
        Inl e \<Rightarrow> Inl e
      | Inr img \<Rightarrow>
          (case preprocess env img of
             Inl e \<Rightarrow> Inl e
           | Inr image_input \<Rightarrow>
               (case encode_image env [image_input] of
                  Inl e \<Rightarrow> Inl e
                | Inr rows \<Rightarrow> index rows 0)))"

text \<open>Lines 62-66: tokenize the batch of one, encode it and take row 0.\<close>

definition embed_text :: "('f, 'i, 't) env \<Rightarrow> string \<Rightarrow> exn + 'f list" where
  "embed_text env s =
     (case tokenize env [s] of
        Inl e \<Rightarrow> Inl e
      | Inr text_input \<Rightarrow>
          (case encode_text env text_input of
             Inl e \<Rightarrow> Inl e
           | Inr rows \<Rightarrow> index rows 0))"

text \<open>The body of the \<open>try\<close> block of the handler.\<close>

definition get_embeddings_try ::
  "('f, 'i, 't) env \<Rightarrow> EmbeddingRequest \<Rightarrow> exn + 'f py_dict" where
  "get_embeddings_try env request =
     (case (case type request of
              Text \<Rightarrow> embed_text env (input request)
            | Image_url \<Rightarrow>
                (case download_image env (input request) of
                   Inl e \<Rightarrow> Inl e
                 | Inr image_bytes \<Rightarrow> embed_image env image_bytes)
            | Image_base64 \<Rightarrow>
                (case process_base64_image (input request) of
                   Inl e \<Rightarrow> Inl e
                 | Inr image_bytes \<Rightarrow> embed_image env image_bytes)) of
        Inl e \<Rightarrow> Inl e
      | Inr embedding \<Rightarrow> Inr (success_response embedding))"

text \<open>Lines 93-94: the catch-all re-raises every exception as an HTTP 422.\<close>

definition get_embeddings ::
  "('f, 'i, 't) env \<Rightarrow> EmbeddingRequest \<Rightarrow> exn + 'f py_dict" where
  "get_embeddings env request =
     (case get_embeddings_try env request of
        Inl e \<Rightarrow> Inl (HTTPException 422 (str_exn e))
      | Inr body \<Rightarrow> Inr body)"

section \<open>health\_check, get\_examples and the routing\<close>

definition health_check :: "('f, 'i, 't) env \<Rightarrow> exn + 'f py_dict" where
  "health_check env =
     Inr [(''status'', PStr ''healthy''),
          (''device'', PStr (device env)),
          (''model'', PStr ''ViT-B/32'')]"

definition get_examples :: "exn + 'f py_dict" where
  "get_examples =
     Inr [(''text_example'',
             PDict [(''type'', PStr ''text''), (''input'', PStr ''a photo of a cat'')]),
          (''image_url_example'',
             PDict [(''type'', PStr ''image_url''),
                    (''input'', PStr ''https://example.com/cat.jpg'')]),
          (''image_base64_example'',
             PDict [(''type'', PStr ''image_base64''),
                    (''input'', PStr ''base64_encoded_image_string'')])]"

datatype http_request =
    POST_embeddings EmbeddingRequest
  | GET_health
  | GET_examples

text \<open>
  What FastAPI sends for the outcome of a handler: 200 with the returned dictionary,
  the status and detail of an \<open>HTTPException\<close>, and 500 for any other exception.
\<close>

fun respond :: "exn + 'f py_dict \<Rightarrow> nat \<times> 'f py_dict" where
  "respond (Inr body) = (200, body)"
| "respond (Inl (HTTPException code detail)) = (code, [(''detail'', PStr detail)])"
| "respond (Inl e) = (500, [(''detail'', PStr ''Internal Server Error'')])"

text \<open>
  One request: the reply and the globals afterwards. No handler assigns to a global, so
  the globals are returned as they were.
\<close>

fun serve :: "('f, 'i, 't) env \<Rightarrow> http_request \<Rightarrow> (nat \<times> 'f py_dict) \<times> ('f, 'i, 't) env" where
  "serve env (POST_embeddings request) = (respond (get_embeddings env request), env)"
| "serve env GET_health = (respond (health_check env), env)"
| "serve env GET_examples = (respond get_examples, env)"

text \<open>A sequence of requests, served one after the other.\<close>

fun serve_all ::
  "('f, 'i, 't) env \<Rightarrow> http_request list \<Rightarrow> (nat \<times> 'f py_dict) list \<times> ('f, 'i, 't) env" where
  "serve_all env [] = ([], env)"
| "serve_all env (r # rs) =
     (case serve env r of
        (reply, env') \<Rightarrow> (case serve_all env' rs of (replies, env'') \<Rightarrow> (reply # replies, env'')))"

section \<open>Vocabulary for the statements about process\_base64\_image\<close>

text \<open>
  These functions are not part of the program; they name the pieces of a string that the
  statements below talk about. \<open>upto_first sep s\<close> is the text of \<open>s\<close> before the
  first occurrence of \<open>sep\<close> (all of \<open>s\<close> when there is none), and \<open>after_first sep s\<close>
  is the text after the first occurrence.
\<close>

fun after_first :: "string \<Rightarrow> string \<Rightarrow> string" where
  "after_first sep [] = []"
| "after_first sep (c # cs) =
     (if prefix sep (c # cs) then drop (length sep) (c # cs) else after_first sep cs)"

fun upto_first :: "string \<Rightarrow> string \<Rightarrow> string" where
  "upto_first sep [] = []"
| "upto_first sep (c # cs) = (if prefix sep (c # cs) then [] else c # upto_first sep cs)"

text \<open>
  The characters that the decoder does not skip: the 64 digits of the base64 alphabet,
  as the decoding table defines them, and the padding character.
\<close>

definition is_base64_digit :: "char \<Rightarrow> bool" where
  "is_base64_digit c = (table_a2b_base64 (byte_of_char c) < 64)"

definition decoder_reads :: "char \<Rightarrow> bool" where
  "decoder_reads c = (is_base64_digit c \<or> c = CHR ''='')"

section \<open>A stub environment for concrete runs\<close>

text \<open>
  An environment on a CPU whose tokenizer and encoders return one row per input (the
  text and image rows are 512 wide), whose image decoder accepts exactly the byte
  strings that start with the GIF signature \<open>GIF89a\<close>, and whose HTTP client answers
  every GET with the given outcome.
\<close>

definition stub_env :: "exn + response \<Rightarrow> (int, unit, unit) env" where
  "stub_env reply =
     \<lparr>device = ''cpu'',
      tokenize = (\<lambda>texts. Inr (map (\<lambda>_. [49406, 49407]) texts)),
      encode_text = (\<lambda>tokens. Inr (map (\<lambda>_. replicate 512 0) tokens)),
      requests_get = (\<lambda>_ _. reply),
      image_open = (\<lambda>b. if take 6 b = [71, 73, 70, 56, 57, 97] then Inr ()
                         else Inl (ExternalError ''cannot identify image file'')),
      preprocess = Inr,
      encode_image = (\<lambda>batch. Inr (map (\<lambda>_. replicate 512 0) batch))\<rparr>"

text \<open>The 42 bytes of a GIF image of one pixel, and their base64 encoding.\<close>

definition gif_1x1 :: "byte list" where
  "gif_1x1 =
     [71, 73, 70, 56, 57, 97, 1, 0, 1, 0, 128, 0, 0, 0, 0, 0, 255, 255, 255, 33, 249,
      4, 1, 0, 0, 0, 0, 44, 0, 0, 0, 0, 1, 0, 1, 0, 0, 2, 1, 68, 0, 59]"

definition gif_1x1_base64 :: string where
  "gif_1x1_base64 = ''R0lGODlhAQABAIAAAAAAAP///yH5BAEAAAAALAAAAAABAAEAAAIBRAA7''"

text \<open>A collaborator that raises on every call, with the given message.\<close>

definition broken :: "string \<Rightarrow> 'a \<Rightarrow> exn + 'b" where
  "broken message x = Inl (ExternalError message)"

definition timed_out :: "exn + response" where
  "timed_out = Inl (ExternalError ''Read timed out. (read timeout=10)'')"

section \<open>The globals are never changed\<close>

lemma str_nat_422: "str_nat 422 = ''422''"
  by (simp add: str_nat.simps digit_char_def)

lemma serve_globals: "snd (serve env r) = env"
  by (cases r) simp_all

lemma serve_all_globals: "snd (serve_all env rs) = env"
proof (induction rs arbitrary: env)
  case Nil
  show ?case by simp
next
  case (Cons r rs)
  have "snd (serve env r) = env" by (rule serve_globals)
  with Cons show ?case by (simp add: split_beta)
qed

lemma serve_all_append:
  "fst (serve_all env (xs @ ys)) = fst (serve_all env xs) @ fst (serve_all env ys)"
proof (induction xs arbitrary: env)
  case Nil
  show ?case by simp
next
  case (Cons r rs)
  have "snd (serve env r) = env" by (rule serve_globals)
  with Cons show ?case by (simp add: split_beta)
qed

section \<open>GET /health\<close>

text \<open>
  Claim C6. \<open>health_check\<close> returns normally, so the reply is HTTP 200, with the body
  \<open>{status: "healthy", device: <the global device>, model: "ViT-B/32"}\<close>. Serving it
  leaves the globals as they were, and after any sequence of earlier requests, failed
  or not, the reply to \<open>GET /health\<close> is the same. The global device is the one chosen at
  startup: \<open>"cuda"\<close> when CUDA is available and \<open>"cpu"\<close> otherwise.
\<close>

theorem health_check_healthy:
  "health_check env =
     Inr [(''status'', PStr ''healthy''), (''device'', PStr (device env)),
          (''model'', PStr ''ViT-B/32'')]
   \<and> serve env GET_health =
       ((200, [(''status'', PStr ''healthy''), (''device'', PStr (device env)),
               (''model'', PStr ''ViT-B/32'')]), env)
   \<and> fst (serve_all env (prior @ [GET_health])) =
       fst (serve_all env prior) @
         [(200, [(''status'', PStr ''healthy''), (''device'', PStr (device env)),
                 (''model'', PStr ''ViT-B/32'')])]
   \<and> snd (serve_all env prior) = env
   \<and> device (startup cuda_is_available libs) = (if cuda_is_available then ''cuda'' else ''cpu'')"
  by (simp add: health_check_def serve_all_append serve_all_globals startup_def)

section \<open>Every failure of POST /embeddings is a 422\<close>

lemma get_embeddings_helper_failed:
  assumes "(type request = Image_url \<and> download_image env (input request) = Inl e)
         \<or> (type request = Image_base64 \<and> process_base64_image (input request) = Inl e)"
  shows "get_embeddings env request = Inl (HTTPException 422 (str_exn e))"
  using assms by (auto simp: get_embeddings_def get_embeddings_try_def)

lemma get_embeddings_image_failed:
  assumes "(type request = Image_url \<and> download_image env (input request) = Inr image_bytes)
         \<or> (type request = Image_base64 \<and> process_base64_image (input request) = Inr image_bytes)"
    and "embed_image env image_bytes = Inl e"
  shows "get_embeddings env request = Inl (HTTPException 422 (str_exn e))"
  using assms by (auto simp: get_embeddings_def get_embeddings_try_def)

lemma get_embeddings_text_failed:
  assumes "type request = Text" "embed_text env (input request) = Inl e"
  shows "get_embeddings env request = Inl (HTTPException 422 (str_exn e))"
  using assms by (simp add: get_embeddings_def get_embeddings_try_def)

lemma embed_image_open_failed:
  "image_open env image_bytes = Inl e \<Longrightarrow> embed_image env image_bytes = Inl e"
  by (simp add: embed_image_def)

lemma embed_image_preprocess_failed:
  "image_open env image_bytes = Inr img \<Longrightarrow> preprocess env img = Inl e \<Longrightarrow>
     embed_image env image_bytes = Inl e"
  by (simp add: embed_image_def)

lemma embed_image_encode_failed:
  "image_open env image_bytes = Inr img \<Longrightarrow> preprocess env img = Inr image_input \<Longrightarrow>
     encode_image env [image_input] = Inl e \<Longrightarrow> embed_image env image_bytes = Inl e"
  by (simp add: embed_image_def)

lemma embed_text_tokenize_failed:
  "tokenize env [s] = Inl e \<Longrightarrow> embed_text env s = Inl e"
  by (simp add: embed_text_def)

lemma embed_text_encode_failed:
  "tokenize env [s] = Inr text_input \<Longrightarrow> encode_text env text_input = Inl e \<Longrightarrow>
     embed_text env s = Inl e"
  by (simp add: embed_text_def)

text \<open>
  Claim C5. Every failure path of \<open>get_embeddings\<close> ends in the same reply: when
  \<open>download_image\<close> fails (a download failure), when \<open>process_base64_image\<close> fails or
  the image decoder rejects the bytes (a decoding failure), or when the preprocessing,
  the tokenizer or an encoder raises (an inference failure), the handler raises
  \<open>HTTPException\<close> with status 422 whose detail is the text of that exception. And
  whatever makes the handler fail, the exception it raises has status 422, so the reply
  has status 422 with only the detail varying; the status is never in the 5xx class.
\<close>

theorem get_embeddings_failure_is_422:
  "(get_embeddings env request = Inl e \<longrightarrow>
      (\<exists>detail. e = HTTPException 422 detail
         \<and> respond (get_embeddings env request) = (422, [(''detail'', PStr detail)])))
   \<and> (type request = Image_url \<longrightarrow> download_image env (input request) = Inl e_download \<longrightarrow>
        get_embeddings env request = Inl (HTTPException 422 (str_exn e_download)))
   \<and> (type request = Image_base64 \<longrightarrow> process_base64_image (input request) = Inl e_decode \<longrightarrow>
        get_embeddings env request = Inl (HTTPException 422 (str_exn e_decode)))
   \<and> ((type request = Image_url \<and> download_image env (input request) = Inr image_bytes)
        \<or> (type request = Image_base64 \<and> process_base64_image (input request) = Inr image_bytes) \<longrightarrow>
        (image_open env image_bytes = Inl e_open \<longrightarrow>
           get_embeddings env request = Inl (HTTPException 422 (str_exn e_open)))
      \<and> (image_open env image_bytes = Inr img \<longrightarrow> preprocess env img = Inl e_preprocess \<longrightarrow>
           get_embeddings env request = Inl (HTTPException 422 (str_exn e_preprocess)))
      \<and> (image_open env image_bytes = Inr img \<longrightarrow> preprocess env img = Inr image_input \<longrightarrow>
           encode_image env [image_input] = Inl e_encode \<longrightarrow>
           get_embeddings env request = Inl (HTTPException 422 (str_exn e_encode))))
   \<and> (type request = Text \<longrightarrow>
        (tokenize env [input request] = Inl e_tokenize \<longrightarrow>
           get_embeddings env request = Inl (HTTPException 422 (str_exn e_tokenize)))
      \<and> (tokenize env [input request] = Inr text_input \<longrightarrow>
           encode_text env text_input = Inl e_text \<longrightarrow>
           get_embeddings env request = Inl (HTTPException 422 (str_exn e_text))))"
proof (intro conjI impI)
  assume "get_embeddings env request = Inl e"
  then show "\<exists>detail. e = HTTPException 422 detail
         \<and> respond (get_embeddings env request) = (422, [(''detail'', PStr detail)])"
    by (auto simp: get_embeddings_def split: sum.splits)
next
  assume "type request = Image_url" "download_image env (input request) = Inl e_download"
  then show "get_embeddings env request = Inl (HTTPException 422 (str_exn e_download))"
    by (intro get_embeddings_helper_failed) simp
next
  assume "type request = Image_base64" "process_base64_image (input request) = Inl e_decode"
  then show "get_embeddings env request = Inl (HTTPException 422 (str_exn e_decode))"
    by (intro get_embeddings_helper_failed) simp
next
  assume got: "(type request = Image_url \<and> download_image env (input request) = Inr image_bytes)
        \<or> (type request = Image_base64 \<and> process_base64_image (input request) = Inr image_bytes)"
    and "image_open env image_bytes = Inl e_open"
  then have "embed_image env image_bytes = Inl e_open" by (intro embed_image_open_failed)
  with got show "get_embeddings env request = Inl (HTTPException 422 (str_exn e_open))"
    by (rule get_embeddings_image_failed)
next
  assume got: "(type request = Image_url \<and> download_image env (input request) = Inr image_bytes)
        \<or> (type request = Image_base64 \<and> process_base64_image (input request) = Inr image_bytes)"
    and "image_open env image_bytes = Inr img" "preprocess env img = Inl e_preprocess"
  then have "embed_image env image_bytes = Inl e_preprocess"
    by (intro embed_image_preprocess_failed)
  with got show "get_embeddings env request = Inl (HTTPException 422 (str_exn e_preprocess))"
    by (rule get_embeddings_image_failed)
next
  assume got: "(type request = Image_url \<and> download_image env (input request) = Inr image_bytes)
        \<or> (type request = Image_base64 \<and> process_base64_image (input request) = Inr image_bytes)"
    and "image_open env image_bytes = Inr img" "preprocess env img = Inr image_input"
      "encode_image env [image_input] = Inl e_encode"
  then have "embed_image env image_bytes = Inl e_encode"
    by (intro embed_image_encode_failed)
  with got show "get_embeddings env request = Inl (HTTPException 422 (str_exn e_encode))"
    by (rule get_embeddings_image_failed)
next
  assume t: "type request = Text" and "tokenize env [input request] = Inl e_tokenize"
  then have "embed_text env (input request) = Inl e_tokenize"
    by (intro embed_text_tokenize_failed)
  with t show "get_embeddings env request = Inl (HTTPException 422 (str_exn e_tokenize))"
    by (rule get_embeddings_text_failed)
next
  assume t: "type request = Text" and "tokenize env [input request] = Inr text_input"
    "encode_text env text_input = Inl e_text"
  then have "embed_text env (input request) = Inl e_text"
    by (intro embed_text_encode_failed)
  with t show "get_embeddings env request = Inl (HTTPException 422 (str_exn e_text))"
    by (rule get_embeddings_text_failed)
qed

theorem get_embeddings_failure_is_422_witness:
  "get_embeddings (stub_env timed_out)
      \<lparr>type = Image_url, input = ''http://unreachable.invalid/cat.jpg''\<rparr>
     = Inl (HTTPException 422 ''422: Error downloading image: Read timed out. (read timeout=10)'')
   \<and> get_embeddings (stub_env timed_out) \<lparr>type = Image_base64, input = ''QQ''\<rparr>
     = Inl (HTTPException 422 ''422: Error processing base64 image: Incorrect padding'')
   \<and> get_embeddings (stub_env timed_out) \<lparr>type = Image_base64, input = ''QUJD''\<rparr>
     = Inl (HTTPException 422 ''cannot identify image file'')
   \<and> respond (get_embeddings (stub_env timed_out) \<lparr>type = Image_base64, input = ''QUJD''\<rparr>)
     = (422, [(''detail'', PStr ''cannot identify image file'')])
   \<and> get_embeddings ((stub_env timed_out)\<lparr>preprocess := broken ''cannot resize the image''\<rparr>)
        \<lparr>type = Image_base64, input = gif_1x1_base64\<rparr>
     = Inl (HTTPException 422 ''cannot resize the image'')
   \<and> get_embeddings ((stub_env timed_out)\<lparr>encode_image := broken ''CUDA out of memory''\<rparr>)
        \<lparr>type = Image_base64, input = gif_1x1_base64\<rparr>
     = Inl (HTTPException 422 ''CUDA out of memory'')
   \<and> get_embeddings ((stub_env timed_out)\<lparr>tokenize := broken ''Input is too long for context length 77''\<rparr>)
        \<lparr>type = Text, input = ''a photo of a cat''\<rparr>
     = Inl (HTTPException 422 ''Input is too long for context length 77'')
   \<and> get_embeddings ((stub_env timed_out)\<lparr>encode_text := broken ''CUDA out of memory''\<rparr>)
        \<lparr>type = Text, input = ''a photo of a cat''\<rparr>
     = Inl (HTTPException 422 ''CUDA out of memory'')"
proof -
  have dl: "download_image (stub_env timed_out) ''http://unreachable.invalid/cat.jpg''
     = Inl (HTTPException 422 ''Error downloading image: Read timed out. (read timeout=10)'')"
    by (simp add: download_image_def download_image_try_def stub_env_def timed_out_def)
  have dec: "process_base64_image ''QQ''
     = Inl (HTTPException 422 ''Error processing base64 image: Incorrect padding'')"
    by code_simp
  have abc: "process_base64_image ''QUJD'' = Inr [65, 66, 67]" by code_simp
  have gif: "process_base64_image gif_1x1_base64 = Inr gif_1x1" by code_simp
  have open_abc: "image_open (stub_env timed_out) [65, 66, 67]
     = Inl (ExternalError ''cannot identify image file'')"
    by (simp add: stub_env_def)
  have open_gif: "image_open (stub_env timed_out) gif_1x1 = Inr ()"
    by (simp add: stub_env_def gif_1x1_def)
  have c1: "get_embeddings (stub_env timed_out)
      \<lparr>type = Image_url, input = ''http://unreachable.invalid/cat.jpg''\<rparr>
     = Inl (HTTPException 422 ''422: Error downloading image: Read timed out. (read timeout=10)'')"
    using get_embeddings_failure_is_422 [where env = "stub_env timed_out"
        and request = "\<lparr>type = Image_url, input = ''http://unreachable.invalid/cat.jpg''\<rparr>"
        and e_download = "HTTPException 422
              ''Error downloading image: Read timed out. (read timeout=10)''"] dl
    by (simp add: str_nat_422)
  have c2: "get_embeddings (stub_env timed_out) \<lparr>type = Image_base64, input = ''QQ''\<rparr>
     = Inl (HTTPException 422 ''422: Error processing base64 image: Incorrect padding'')"
    using get_embeddings_failure_is_422 [where env = "stub_env timed_out"
        and request = "\<lparr>type = Image_base64, input = ''QQ''\<rparr>"
        and e_decode = "HTTPException 422 ''Error processing base64 image: Incorrect padding''"] dec
    by (simp add: str_nat_422)
  have c3: "get_embeddings (stub_env timed_out) \<lparr>type = Image_base64, input = ''QUJD''\<rparr>
     = Inl (HTTPException 422 ''cannot identify image file'')"
    using get_embeddings_failure_is_422 [where env = "stub_env timed_out"
        and request = "\<lparr>type = Image_base64, input = ''QUJD''\<rparr>"
        and image_bytes = "[65, 66, 67]"
        and e_open = "ExternalError ''cannot identify image file''"] abc open_abc
    by simp
  have c4: "respond (get_embeddings (stub_env timed_out) \<lparr>type = Image_base64, input = ''QUJD''\<rparr>)
     = (422, [(''detail'', PStr ''cannot identify image file'')])"
    using get_embeddings_failure_is_422 [where env = "stub_env timed_out"
        and request = "\<lparr>type = Image_base64, input = ''QUJD''\<rparr>"
        and e = "HTTPException 422 ''cannot identify image file''"] c3
    by simp
  have c5: "get_embeddings ((stub_env timed_out)\<lparr>preprocess := broken ''cannot resize the image''\<rparr>)
        \<lparr>type = Image_base64, input = gif_1x1_base64\<rparr>
     = Inl (HTTPException 422 ''cannot resize the image'')"
    using get_embeddings_failure_is_422 [where env = "(stub_env timed_out)\<lparr>preprocess := broken ''cannot resize the image''\<rparr>"
        and request = "\<lparr>type = Image_base64, input = gif_1x1_base64\<rparr>"
        and image_bytes = gif_1x1 and img = "()"
        and e_preprocess = "ExternalError ''cannot resize the image''"] gif open_gif
    by (simp add: broken_def)
  have c6: "get_embeddings ((stub_env timed_out)\<lparr>encode_image := broken ''CUDA out of memory''\<rparr>)
        \<lparr>type = Image_base64, input = gif_1x1_base64\<rparr>
     = Inl (HTTPException 422 ''CUDA out of memory'')"
    using get_embeddings_failure_is_422 [where env = "(stub_env timed_out)\<lparr>encode_image := broken ''CUDA out of memory''\<rparr>"
        and request = "\<lparr>type = Image_base64, input = gif_1x1_base64\<rparr>"
        and image_bytes = gif_1x1 and img = "()" and image_input = "()"
        and e_encode = "ExternalError ''CUDA out of memory''"] gif open_gif
    by (simp add: broken_def stub_env_def)
  have c7: "get_embeddings ((stub_env timed_out)\<lparr>tokenize := broken ''Input is too long for context length 77''\<rparr>)
        \<lparr>type = Text, input = ''a photo of a cat''\<rparr>
     = Inl (HTTPException 422 ''Input is too long for context length 77'')"
    using get_embeddings_failure_is_422 [where env = "(stub_env timed_out)\<lparr>tokenize := broken ''Input is too long for context length 77''\<rparr>"
        and request = "\<lparr>type = Text, input = ''a photo of a cat''\<rparr>"
        and e_tokenize = "ExternalError ''Input is too long for context length 77''"]
    by (simp add: broken_def)
  have c8: "get_embeddings ((stub_env timed_out)\<lparr>encode_text := broken ''CUDA out of memory''\<rparr>)
        \<lparr>type = Text, input = ''a photo of a cat''\<rparr>
     = Inl (HTTPException 422 ''CUDA out of memory'')"
    using get_embeddings_failure_is_422 [where env = "(stub_env timed_out)\<lparr>encode_text := broken ''CUDA out of memory''\<rparr>"
        and request = "\<lparr>type = Text, input = ''a photo of a cat''\<rparr>"
        and text_input = "[[49406, 49407]]"
        and e_text = "ExternalError ''CUDA out of memory''"]
    by (simp add: broken_def stub_env_def)
  from c1 c2 c3 c4 c5 c6 c7 c8 show ?thesis by (intro conjI)
qed

section \<open>Facts about the string operations\<close>

lemma str_contains_sublist: "str_contains sub s \<longleftrightarrow> sublist sub s"
  by (induction s) (auto simp: sublist_Cons_right)

lemma upto_first_absent: "\<not> str_contains sep s \<Longrightarrow> upto_first sep s = s"
  by (induction s) auto

lemma first_occurrence_decomposition:
  "str_contains sep s \<Longrightarrow> s = upto_first sep s @ sep @ after_first sep s"
proof (induction s)
  case Nil
  then show ?case by simp
next
  case (Cons c cs)
  show ?case
  proof (cases "prefix sep (c # cs)")
    case True
    then have "sep @ drop (length sep) (c # cs) = c # cs"
      by (metis append_take_drop_id prefix_def append_eq_conv_conj)
    moreover have "upto_first sep (c # cs) = []" using True by simp
    moreover have "after_first sep (c # cs) = drop (length sep) (c # cs)" using True by simp
    ultimately show ?thesis by simp
  next
    case False
    with Cons show ?thesis by simp
  qed
qed

lemma split_scan_first:
  "sep \<noteq> [] \<Longrightarrow>
   split_scan sep cur s =
     (if str_contains sep s
      then (cur @ upto_first sep s) # split_scan sep [] (after_first sep s)
      else [cur @ s])"
  by (induction s arbitrary: cur) auto

lemma split_scan_head:
  "sep \<noteq> [] \<Longrightarrow> \<exists>rest. split_scan sep cur s = (cur @ upto_first sep s) # rest"
  by (subst split_scan_first) (auto simp: upto_first_absent)

lemma split_element_1:
  assumes "sep \<noteq> []" "str_contains sep s"
  shows "\<exists>rest. split_scan sep [] s = upto_first sep s # upto_first sep (after_first sep s) # rest"
proof -
  obtain rest where "split_scan sep [] (after_first sep s) = upto_first sep (after_first sep s) # rest"
    using split_scan_head [OF assms(1), of "[]" "after_first sep s"] by auto
  then show ?thesis using assms by (subst split_scan_first) auto
qed

lemma upto_first_prefix: "prefix (upto_first sep s) s"
  by (induction s) auto

lemma upto_first_has_no_sep: "sep \<noteq> [] \<Longrightarrow> \<not> str_contains sep (upto_first sep s)"
proof (induction s)
  case Nil
  then show ?case by simp
next
  case (Cons c cs)
  show ?case
  proof (cases "prefix sep (c # cs)")
    case True
    with Cons.prems show ?thesis by simp
  next
    case False
    have "prefix (c # upto_first sep cs) (c # cs)" by (simp add: upto_first_prefix)
    with False have "\<not> prefix sep (c # upto_first sep cs)"
      using prefix_order.trans by blast
    with False Cons show ?thesis by simp
  qed
qed

section \<open>What process\_base64\_image decodes\<close>

lemma process_base64_image_try_eq:
  "process_base64_image_try s =
     b64decode (if str_contains ''base64,'' s
                then upto_first ''base64,'' (after_first ''base64,'' s) else s)"
proof (cases "str_contains ''base64,'' s")
  case True
  obtain rest where "split_scan ''base64,'' [] s =
      upto_first ''base64,'' s # upto_first ''base64,'' (after_first ''base64,'' s) # rest"
    using split_element_1 [of "''base64,''" s] True by auto
  then show ?thesis using True
    by (simp add: process_base64_image_try_def py_split_def index_def)
next
  case False
  then show ?thesis by (simp add: process_base64_image_try_def)
qed

lemma process_base64_image_eq:
  "process_base64_image s =
     (case b64decode (if str_contains ''base64,'' s
                      then upto_first ''base64,'' (after_first ''base64,'' s) else s) of
        Inl e \<Rightarrow> Inl (HTTPException 422 (''Error processing base64 image: '' @ str_exn e))
      | Inr image_bytes \<Rightarrow> Inr image_bytes)"
  by (simp add: process_base64_image_def process_base64_image_try_eq)

text \<open>
  Claim C8, as amended. When \<open>'base64,'\<close> occurs in the input, \<open>process_base64_image\<close>
  decodes the text between the first occurrence of \<open>'base64,'\<close> and the next occurrence
  (or the end of the string when there is no further occurrence): element 1 of the
  split, not everything after the first occurrence. An input without \<open>'base64,'\<close> is
  decoded whole. The input is the text before the first occurrence, the marker and the
  text after it; neither the skipped text nor the decoded segment contains the marker;
  and when the marker occurs only once the decoded segment is all of the remainder.
\<close>

theorem process_base64_image_decodes_segment:
  "process_base64_image s =
     (case b64decode (if str_contains ''base64,'' s
                      then upto_first ''base64,'' (after_first ''base64,'' s) else s) of
        Inl e \<Rightarrow> Inl (HTTPException 422 (''Error processing base64 image: '' @ str_exn e))
      | Inr image_bytes \<Rightarrow> Inr image_bytes)
   \<and> (str_contains ''base64,'' s \<longrightarrow>
        s = upto_first ''base64,'' s @ ''base64,'' @ after_first ''base64,'' s)
   \<and> \<not> str_contains ''base64,'' (upto_first ''base64,'' s)
   \<and> \<not> str_contains ''base64,'' (upto_first ''base64,'' (after_first ''base64,'' s))
   \<and> (\<not> str_contains ''base64,'' (after_first ''base64,'' s) \<longrightarrow>
        upto_first ''base64,'' (after_first ''base64,'' s) = after_first ''base64,'' s)"
proof (intro conjI impI)
  show "process_base64_image s =
     (case b64decode (if str_contains ''base64,'' s
                      then upto_first ''base64,'' (after_first ''base64,'' s) else s) of
        Inl e \<Rightarrow> Inl (HTTPException 422 (''Error processing base64 image: '' @ str_exn e))
      | Inr image_bytes \<Rightarrow> Inr image_bytes)"
    by (rule process_base64_image_eq)
next
  assume "str_contains ''base64,'' s"
  then show "s = upto_first ''base64,'' s @ ''base64,'' @ after_first ''base64,'' s"
    by (rule first_occurrence_decomposition)
next
  show "\<not> str_contains ''base64,'' (upto_first ''base64,'' s)"
    by (rule upto_first_has_no_sep) simp
next
  show "\<not> str_contains ''base64,'' (upto_first ''base64,'' (after_first ''base64,'' s))"
    by (rule upto_first_has_no_sep) simp
next
  assume "\<not> str_contains ''base64,'' (after_first ''base64,'' s)"
  then show "upto_first ''base64,'' (after_first ''base64,'' s) = after_first ''base64,'' s"
    by (rule upto_first_absent)
qed

theorem process_base64_image_decodes_segment_witness:
  "process_base64_image ''data:image/png;base64,QUJDbase64,RA=='' = Inr [65, 66, 67]
   \<and> process_base64_image ''data:image/png;base64,QUJD'' = Inr [65, 66, 67]
   \<and> str_contains ''base64,'' ''data:image/png;base64,QUJD''
   \<and> \<not> str_contains ''base64,'' (after_first ''base64,'' ''data:image/png;base64,QUJD'')
   \<and> upto_first ''base64,'' ''data:image/png;base64,QUJD'' @ ''base64,''
         @ after_first ''base64,'' ''data:image/png;base64,QUJD'' = ''data:image/png;base64,QUJD''"
proof -
  have a: "str_contains ''base64,'' ''data:image/png;base64,QUJD''" by code_simp
  have b: "\<not> str_contains ''base64,'' (after_first ''base64,'' ''data:image/png;base64,QUJD'')"
    by code_simp
  have c: "process_base64_image ''data:image/png;base64,QUJDbase64,RA=='' = Inr [65, 66, 67]"
    by code_simp
  have d: "process_base64_image ''data:image/png;base64,QUJD'' = Inr [65, 66, 67]"
    by code_simp
  from process_base64_image_decodes_segment [of "''data:image/png;base64,QUJD''"] a b c d show ?thesis by simp
qed

text \<open>
  The claim as it was stated fails on an input with two markers: the program decodes
  \<open>QUJD\<close>, while the text after the first marker is \<open>QUJDbase64,RA==\<close>, which decodes
  to other bytes.
\<close>

theorem second_marker_cuts_payload_counterexample:
  "str_contains ''base64,'' ''data:image/png;base64,QUJDbase64,RA==''
   \<and> after_first ''base64,'' ''data:image/png;base64,QUJDbase64,RA=='' = ''QUJDbase64,RA==''
   \<and> b64decode ''QUJDbase64,RA=='' = Inr [65, 66, 67, 109, 171, 30, 235, 132, 64]
   \<and> process_base64_image ''data:image/png;base64,QUJDbase64,RA=='' = Inr [65, 66, 67]
   \<and> process_base64_image ''data:image/png;base64,QUJDbase64,RA==''
       \<noteq> b64decode (after_first ''base64,'' ''data:image/png;base64,QUJDbase64,RA=='')"
  by code_simp

section \<open>A data-URL prefix does not change the result\<close>

lemma marker_body_no_comma: "k < 6 \<Longrightarrow> ''base64,'' ! k \<noteq> CHR '',''"
  by (auto simp: less_Suc_eq numeral_eq_Suc)

lemma marker_not_prefix:
  assumes "CHR '','' \<notin> set p" "p \<noteq> []"
  shows "\<not> prefix ''base64,'' (p @ ''base64,'' @ s)"
proof
  assume "prefix ''base64,'' (p @ ''base64,'' @ s)"
  then obtain r where r: "p @ ''base64,'' @ s = ''base64,'' @ r"
    by (auto simp: prefix_def)
  have "(''base64,'' @ r) ! 6 = CHR '',''" by simp
  with r have six: "(p @ ''base64,'' @ s) ! 6 = CHR '',''" by simp
  show False
  proof (cases "6 < length p")
    case True
    then have "(p @ ''base64,'' @ s) ! 6 = p ! 6" by (simp add: nth_append)
    with six True assms(1) show False by (metis nth_mem)
  next
    case False
    with assms(2) have k: "6 - length p < 6" by (cases p) auto
    from False have "(p @ ''base64,'' @ s) ! 6 = (''base64,'' @ s) ! (6 - length p)"
      by (simp add: nth_append)
    also from k have "\<dots> = ''base64,'' ! (6 - length p)"
      by (subst nth_append) simp
    finally show False using six marker_body_no_comma [OF k] by simp
  qed
qed

lemma after_first_skip:
  "\<not> prefix sep (c # cs) \<Longrightarrow> after_first sep (c # cs) = after_first sep cs"
  by simp

lemma after_first_marker:
  "CHR '','' \<notin> set p \<Longrightarrow> after_first ''base64,'' (p @ ''base64,'' @ s) = s"
proof (induction p)
  case Nil
  show ?case by simp
next
  case (Cons c p)
  have "\<not> prefix ''base64,'' ((c # p) @ ''base64,'' @ s)"
    using Cons.prems by (intro marker_not_prefix) auto
  then have "\<not> prefix ''base64,'' (c # (p @ ''base64,'' @ s))"
    by simp
  then have "after_first ''base64,'' (c # (p @ ''base64,'' @ s))
               = after_first ''base64,'' (p @ ''base64,'' @ s)"
    by (rule after_first_skip)
  also have "\<dots> = s" using Cons by simp
  finally show ?case by (simp only: append_Cons)
qed

lemma contains_marker: "str_contains sep (p @ sep @ s)"
  by (simp add: str_contains_sublist)

lemma base64_payload_has_no_marker:
  "list_all decoder_reads s \<Longrightarrow> \<not> str_contains ''base64,'' s"
proof
  assume "list_all decoder_reads s" and "str_contains ''base64,'' s"
  then have "set ''base64,'' \<subseteq> set s" by (auto simp: str_contains_sublist dest: set_mono_sublist)
  then have "CHR '','' \<in> set s" by simp
  with \<open>list_all decoder_reads s\<close> have "decoder_reads (CHR '','')" by (simp add: list_all_iff)
  then show False by code_simp
qed

text \<open>
  Claim C2. Let \<open>s\<close> be a payload in which \<open>'base64,'\<close> does not occur (every string over
  the base64 alphabet and the padding character is one, by
  \<open>base64_payload_has_no_marker\<close>) and let \<open>mime\<close> contain no comma, as a MIME type does.
  Then \<open>process_base64_image\<close> yields the same bytes, or the same error, for
  \<open>"data:" + mime + ";base64," + s\<close> as for \<open>s\<close>, and \<open>POST /embeddings\<close> with kind
  \<open>image_base64\<close> yields the same result for both.
\<close>

theorem data_url_prefix_same_result:
  assumes "\<not> str_contains ''base64,'' s" and "CHR '','' \<notin> set mime"
  shows "process_base64_image (''data:'' @ mime @ '';base64,'' @ s) = process_base64_image s
       \<and> get_embeddings env \<lparr>type = Image_base64, input = ''data:'' @ mime @ '';base64,'' @ s\<rparr>
           = get_embeddings env \<lparr>type = Image_base64, input = s\<rparr>"
proof -
  let ?p = "''data:'' @ mime @ '';''"
  have eq: "''data:'' @ mime @ '';base64,'' @ s = ?p @ ''base64,'' @ s" by simp
  have "CHR '','' \<notin> set ?p" using assms(2) by simp
  then have "after_first ''base64,'' (?p @ ''base64,'' @ s) = s" by (rule after_first_marker)
  moreover have "str_contains ''base64,'' (?p @ ''base64,'' @ s)" by (rule contains_marker)
  moreover have "upto_first ''base64,'' s = s" using assms(1) by (rule upto_first_absent)
  ultimately have "process_base64_image (?p @ ''base64,'' @ s) = process_base64_image s"
    using assms(1) by (simp only: process_base64_image_eq if_True if_False)
  then have "process_base64_image (''data:'' @ mime @ '';base64,'' @ s) = process_base64_image s"
    by (simp only: eq)
  then show ?thesis by (simp add: get_embeddings_def get_embeddings_try_def)
qed

theorem data_url_prefix_same_result_witness:
  "\<not> str_contains ''base64,'' gif_1x1_base64 \<and> CHR '','' \<notin> set ''image/gif''
   \<and> process_base64_image (''data:'' @ ''image/gif'' @ '';base64,'' @ gif_1x1_base64) = Inr gif_1x1
   \<and> process_base64_image gif_1x1_base64 = Inr gif_1x1
   \<and> get_embeddings (stub_env timed_out)
        \<lparr>type = Image_base64, input = ''data:'' @ ''image/gif'' @ '';base64,'' @ gif_1x1_base64\<rparr>
       = get_embeddings (stub_env timed_out) \<lparr>type = Image_base64, input = gif_1x1_base64\<rparr>"
proof -
  have a: "\<not> str_contains ''base64,'' gif_1x1_base64" by code_simp
  have b: "CHR '','' \<notin> set ''image/gif''" by simp
  have d: "process_base64_image gif_1x1_base64 = Inr gif_1x1" by code_simp
  from data_url_prefix_same_result [OF a b, of "stub_env timed_out"] a b d show ?thesis by simp
qed

section \<open>The decoder skips what it does not read\<close>

lemma unat_byte_of_char: "unat (byte_of_char c) = of_char c"
  by (simp add: byte_of_char_def unat_of_nat)

lemma byte_of_char_pad: "byte_of_char c = BASE64_PAD \<longleftrightarrow> c = CHR ''=''"
proof
  assume "byte_of_char c = BASE64_PAD"
  then have "unat (byte_of_char c) = unat BASE64_PAD" by simp
  then have "(of_char c :: nat) = 61" by (simp add: unat_byte_of_char BASE64_PAD_def)
  then have "(of_char c :: nat) = of_char (CHR ''='')" by simp
  then show "c = CHR ''=''" by (simp only: of_char_eq_iff)
next
  assume "c = CHR ''=''"
  then show "byte_of_char c = BASE64_PAD" by (simp add: byte_of_char_def BASE64_PAD_def)
qed

lemma a2b_loop_skip:
  "\<not> decoder_reads c \<Longrightarrow>
   a2b_loop quad_pos leftchar pads bin (byte_of_char c # rest)
     = a2b_loop quad_pos leftchar pads bin rest"
  by (simp add: decoder_reads_def is_base64_digit_def byte_of_char_pad not_less)

lemma a2b_loop_filter:
  "a2b_loop quad_pos leftchar pads bin (map byte_of_char (filter decoder_reads s))
     = a2b_loop quad_pos leftchar pads bin (map byte_of_char s)"
proof (induction s arbitrary: quad_pos leftchar pads bin)
  case Nil
  show ?case by simp
next
  case (Cons c s)
  show ?case
  proof (cases "decoder_reads c")
    case True
    then show ?thesis by (simp add: Cons.IH)
  next
    case False
    then show ?thesis by (simp add: a2b_loop_skip Cons.IH del: a2b_loop.simps)
  qed
qed

lemma b64decode_ascii:
  "list_all is_ascii s \<Longrightarrow> b64decode s = a2b_base64 (map byte_of_char s)"
  by (simp add: b64decode_def bytes_from_decode_data_def)

lemma filter_ascii: "list_all is_ascii s \<Longrightarrow> list_all is_ascii (filter P s)"
  by (simp add: list_all_iff)

text \<open>
  Claim C10, as amended. Decoding is lenient for ASCII input: on a string of ASCII
  characters \<open>b64decode\<close> gives the result it gives on the string with every character
  removed that is neither a base64 digit nor the padding character, so such characters
  never make decoding fail by themselves. A string with a non-ASCII character is not
  decoded at all: \<open>b64decode\<close> raises \<open>ValueError\<close>.
\<close>

theorem b64decode_lenient_on_ascii:
  "(list_all is_ascii s \<longrightarrow> b64decode s = b64decode (filter decoder_reads s))
   \<and> (\<not> list_all is_ascii s \<longrightarrow>
        b64decode s = Inl (ValueError ''string argument should contain only ASCII characters''))"
proof (intro conjI impI)
  assume a: "list_all is_ascii s"
  then have "list_all is_ascii (filter decoder_reads s)" by (rule filter_ascii)
  then have "b64decode (filter decoder_reads s)
               = a2b_base64 (map byte_of_char (filter decoder_reads s))"
    by (rule b64decode_ascii)
  also have "\<dots> = a2b_base64 (map byte_of_char s)"
    by (simp only: a2b_base64_def a2b_loop_filter)
  also have "\<dots> = b64decode s" using a by (simp only: b64decode_ascii)
  finally show "b64decode s = b64decode (filter decoder_reads s)" by simp
next
  assume "\<not> list_all is_ascii s"
  then show "b64decode s = Inl (ValueError ''string argument should contain only ASCII characters'')"
    by (simp add: b64decode_def bytes_from_decode_data_def)
qed

theorem b64decode_lenient_on_ascii_witness:
  "list_all is_ascii ''QU!JD'' \<and> \<not> decoder_reads (CHR ''!'')
   \<and> filter decoder_reads ''QU!JD'' = ''QUJD''
   \<and> b64decode ''QU!JD'' = b64decode ''QUJD''
   \<and> process_base64_image ''QU!JD'' = Inr [65, 66, 67]
   \<and> \<not> list_all is_ascii [CHR 0xE9, CHR ''Q'']
   \<and> b64decode [CHR 0xE9, CHR ''Q'']
       = Inl (ValueError ''string argument should contain only ASCII characters'')"
proof -
  have a: "list_all is_ascii ''QU!JD''" by code_simp
  have b: "\<not> decoder_reads (CHR ''!'')" by code_simp
  have f: "filter decoder_reads ''QU!JD'' = ''QUJD''" by code_simp
  have p: "process_base64_image ''QU!JD'' = Inr [65, 66, 67]" by code_simp
  have n: "\<not> list_all is_ascii [CHR 0xE9, CHR ''Q'']" by code_simp
  from b64decode_lenient_on_ascii [of "''QU!JD''"] a f have "b64decode ''QU!JD'' = b64decode ''QUJD''" by simp
  moreover from b64decode_lenient_on_ascii [of "[CHR 0xE9, CHR ''Q'']"] n
  have "b64decode [CHR 0xE9, CHR ''Q'']
          = Inl (ValueError ''string argument should contain only ASCII characters'')" by simp
  ultimately show ?thesis using a b f p n by simp
qed

text \<open>
  The claim as it was stated fails on a non-ASCII character: it is outside the alphabet,
  the characters that remain, \<open>QUJD\<close>, decode, and yet decoding the whole string fails.
\<close>

theorem non_ascii_not_discarded_counterexample:
  "\<not> decoder_reads (CHR 0xE9)
   \<and> filter decoder_reads (CHR 0xE9 # ''QUJD'') = ''QUJD''
   \<and> b64decode ''QUJD'' = Inr [65, 66, 67]
   \<and> process_base64_image (CHR 0xE9 # ''QUJD'')
       = Inl (HTTPException 422
           ''Error processing base64 image: string argument should contain only ASCII characters'')"
  by code_simp

section \<open>Failures inside the helpers and the catch-all of get\_embeddings\<close>

lemma str_exn_422: "str_exn (HTTPException 422 detail) = ''422: '' @ detail"
  by (simp add: str_nat_422)

lemma str_exn_422_differs: "str_exn (HTTPException 422 detail) \<noteq> detail"
proof
  assume "str_exn (HTTPException 422 detail) = detail"
  then have "length (str_exn (HTTPException 422 detail)) = length detail" by simp
  then show False by (simp add: str_exn_422)
qed

lemma download_image_Inl:
  "download_image env u = Inl e \<Longrightarrow>
     \<exists>e0. download_image_try env u = Inl e0
        \<and> e = HTTPException 422 (''Error downloading image: '' @ str_exn e0)"
  by (cases "download_image_try env u") (simp_all add: download_image_def)

lemma process_base64_image_Inl:
  "process_base64_image s = Inl e \<Longrightarrow>
     \<exists>e0. process_base64_image_try s = Inl e0
        \<and> e = HTTPException 422 (''Error processing base64 image: '' @ str_exn e0)"
  by (cases "process_base64_image_try s") (simp_all add: process_base64_image_def)

lemma get_embeddings_download_failed:
  "download_image env u = Inl e \<Longrightarrow>
     get_embeddings env \<lparr>type = Image_url, input = u\<rparr> = Inl (HTTPException 422 (str_exn e))"
  by (simp add: get_embeddings_def get_embeddings_try_def)

lemma get_embeddings_base64_failed:
  "process_base64_image s = Inl e \<Longrightarrow>
     get_embeddings env \<lparr>type = Image_base64, input = s\<rparr> = Inl (HTTPException 422 (str_exn e))"
  by (simp add: get_embeddings_def get_embeddings_try_def)

text \<open>
  Claim C9. When \<open>download_image\<close> or \<open>process_base64_image\<close> fails, it raises an
  \<open>HTTPException\<close> with status 422 whose detail is the helper's message followed by the
  cause. The catch-all of \<open>get_embeddings\<close> catches it and raises a new
  \<open>HTTPException\<close> with status 422 whose detail is \<open>str\<close> of the inner exception, that
  is \<open>"422: "\<close> followed by the inner detail, and so differs from the inner detail.
\<close>

theorem inner_exception_rewrapped:
  "(download_image env u = Inl e \<longrightarrow>
      (\<exists>cause. e = HTTPException 422 (''Error downloading image: '' @ cause)
         \<and> get_embeddings env \<lparr>type = Image_url, input = u\<rparr>
             = Inl (HTTPException 422 (str_exn e))
         \<and> str_exn e = ''422: Error downloading image: '' @ cause
         \<and> str_exn e \<noteq> ''Error downloading image: '' @ cause))
   \<and> (process_base64_image s = Inl e' \<longrightarrow>
      (\<exists>cause. e' = HTTPException 422 (''Error processing base64 image: '' @ cause)
         \<and> get_embeddings env \<lparr>type = Image_base64, input = s\<rparr>
             = Inl (HTTPException 422 (str_exn e'))
         \<and> str_exn e' = ''422: Error processing base64 image: '' @ cause
         \<and> str_exn e' \<noteq> ''Error processing base64 image: '' @ cause))"
proof (intro conjI impI)
  assume f: "download_image env u = Inl e"
  then obtain e0 where e: "e = HTTPException 422 (''Error downloading image: '' @ str_exn e0)"
    using download_image_Inl by blast
  have "str_exn e = ''422: Error downloading image: '' @ str_exn e0"
    unfolding e str_exn_422 by simp
  moreover have "str_exn e \<noteq> ''Error downloading image: '' @ str_exn e0"
    unfolding e by (rule str_exn_422_differs)
  ultimately show "\<exists>cause. e = HTTPException 422 (''Error downloading image: '' @ cause)
         \<and> get_embeddings env \<lparr>type = Image_url, input = u\<rparr>
             = Inl (HTTPException 422 (str_exn e))
         \<and> str_exn e = ''422: Error downloading image: '' @ cause
         \<and> str_exn e \<noteq> ''Error downloading image: '' @ cause"
    using e get_embeddings_download_failed [OF f] by blast
next
  assume f: "process_base64_image s = Inl e'"
  then obtain e0 where e: "e' = HTTPException 422 (''Error processing base64 image: '' @ str_exn e0)"
    using process_base64_image_Inl by blast
  have "str_exn e' = ''422: Error processing base64 image: '' @ str_exn e0"
    unfolding e str_exn_422 by simp
  moreover have "str_exn e' \<noteq> ''Error processing base64 image: '' @ str_exn e0"
    unfolding e by (rule str_exn_422_differs)
  ultimately show "\<exists>cause. e' = HTTPException 422 (''Error processing base64 image: '' @ cause)
         \<and> get_embeddings env \<lparr>type = Image_base64, input = s\<rparr>
             = Inl (HTTPException 422 (str_exn e'))
         \<and> str_exn e' = ''422: Error processing base64 image: '' @ cause
         \<and> str_exn e' \<noteq> ''Error processing base64 image: '' @ cause"
    using e get_embeddings_base64_failed [OF f] by blast
qed

theorem inner_exception_rewrapped_witness:
  "download_image (stub_env timed_out) ''http://unreachable.invalid/cat.jpg''
     = Inl (HTTPException 422 ''Error downloading image: Read timed out. (read timeout=10)'')
   \<and> get_embeddings (stub_env timed_out)
        \<lparr>type = Image_url, input = ''http://unreachable.invalid/cat.jpg''\<rparr>
     = Inl (HTTPException 422 ''422: Error downloading image: Read timed out. (read timeout=10)'')
   \<and> process_base64_image ''QUJDR''
     = Inl (HTTPException 422 ''Error processing base64 image: Invalid base64-encoded string: number of data characters (5) cannot be 1 more than a multiple of 4'')
   \<and> get_embeddings (stub_env timed_out) \<lparr>type = Image_base64, input = ''QUJDR''\<rparr>
     = Inl (HTTPException 422 ''422: Error processing base64 image: Invalid base64-encoded string: number of data characters (5) cannot be 1 more than a multiple of 4'')"
proof -
  have d: "download_image (stub_env timed_out) ''http://unreachable.invalid/cat.jpg''
     = Inl (HTTPException 422 ''Error downloading image: Read timed out. (read timeout=10)'')"
    by (simp add: download_image_def download_image_try_def stub_env_def timed_out_def)
  have p: "process_base64_image ''QUJDR''
     = Inl (HTTPException 422 ''Error processing base64 image: Invalid base64-encoded string: number of data characters (5) cannot be 1 more than a multiple of 4'')"
    by code_simp
  from inner_exception_rewrapped [where env = "stub_env timed_out" and u = "''http://unreachable.invalid/cat.jpg''"
      and e = "HTTPException 422 ''Error downloading image: Read timed out. (read timeout=10)''"
      and s = "''QUJDR''"
      and e' = "HTTPException 422 ''Error processing base64 image: Invalid base64-encoded string: number of data characters (5) cannot be 1 more than a multiple of 4''"]
    d p show ?thesis by (simp add: str_nat_422)
qed

text \<open>
  Claim C3, as amended. When the base64 decoding in \<open>process_base64_image\<close> fails (a
  non-ASCII character, or an incomplete last group once the skipped characters are left
  out, as for \<open>"not-valid-base64!!"\<close>), \<open>POST /embeddings\<close> with kind \<open>image_base64\<close>
  replies with status 422 and a detail that names the cause; it does not reply 500.
\<close>

theorem base64_decode_failure_is_422:
  "process_base64_image_try s = Inl e \<Longrightarrow>
     get_embeddings env \<lparr>type = Image_base64, input = s\<rparr>
       = Inl (HTTPException 422 (''422: Error processing base64 image: '' @ str_exn e))
     \<and> respond (get_embeddings env \<lparr>type = Image_base64, input = s\<rparr>)
       = (422, [(''detail'', PStr (''422: Error processing base64 image: '' @ str_exn e))])"
  by (simp add: get_embeddings_def get_embeddings_try_def process_base64_image_def str_nat_422)

theorem base64_decode_failure_is_422_witness:
  "process_base64_image_try ''not-valid-base64!!'' = Inl (BinasciiError ''Incorrect padding'')
   \<and> get_embeddings (stub_env timed_out) \<lparr>type = Image_base64, input = ''not-valid-base64!!''\<rparr>
       = Inl (HTTPException 422 ''422: Error processing base64 image: Incorrect padding'')
   \<and> respond (get_embeddings (stub_env timed_out)
                \<lparr>type = Image_base64, input = ''not-valid-base64!!''\<rparr>)
       = (422, [(''detail'', PStr ''422: Error processing base64 image: Incorrect padding'')])"
proof -
  have t: "process_base64_image_try ''not-valid-base64!!'' = Inl (BinasciiError ''Incorrect padding'')"
    by code_simp
  from base64_decode_failure_is_422 [OF t, of "stub_env timed_out"] t show ?thesis by simp
qed

text \<open>
  The claim as it was stated fails on an input that is not valid base64 and that the
  decoder accepts: the encoding of a GIF image with \<open>!\<close> inserted is decoded to the
  image, and the reply is 200.
\<close>

theorem invalid_base64_accepted_counterexample:
  "\<not> decoder_reads (CHR ''!'')
   \<and> get_embeddings (stub_env timed_out)
        \<lparr>type = Image_base64,
         input = ''R0lG!ODlhAQABAIAAAAAAAP///yH5BAEAAAAALAAAAAABAAEAAAIBRAA7''\<rparr>
       = Inr [(''status'', PStr ''success''), (''embeddings'', PFloats (replicate 512 0)),
              (''embedding_dimension'', PInt 512)]
   \<and> fst (respond (get_embeddings (stub_env timed_out)
        \<lparr>type = Image_base64,
         input = ''R0lG!ODlhAQABAIAAAAAAAP///yH5BAEAAAAALAAAAAABAAEAAAIBRAA7''\<rparr>)) = 200"
  by code_simp

section \<open>Fetching an image by URL\<close>

lemma download_image_get_raises:
  "requests_get env u 10 = Inl e \<Longrightarrow>
     download_image env u = Inl (HTTPException 422 (''Error downloading image: '' @ str_exn e))"
  by (simp add: download_image_def download_image_try_def)

lemma raise_for_status_error:
  "400 \<le> status_code r \<Longrightarrow> status_code r < 600 \<Longrightarrow>
     raise_for_status r =
       Inl (HTTPError (str_nat (status_code r)
             @ (if status_code r < 500 then '' Client Error: '' else '' Server Error: '')
             @ reason r @ '' for url: '' @ url r))"
  by (simp add: raise_for_status_def)

lemma download_image_error_status:
  assumes "requests_get env u 10 = Inr r" "400 \<le> status_code r" "status_code r < 600"
  shows "download_image env u =
     Inl (HTTPException 422 (''Error downloading image: '' @ str_nat (status_code r)
             @ (if status_code r < 500 then '' Client Error: '' else '' Server Error: '')
             @ reason r @ '' for url: '' @ url r))"
  using assms(1) raise_for_status_error [OF assms(2,3)]
  by (simp add: download_image_def download_image_try_def)

lemma download_image_timeout_only:
  "download_image (env\<lparr>requests_get := \<lambda>u' t. requests_get env u' 10\<rparr>) u = download_image env u"
  by (simp add: download_image_def download_image_try_def)

lemma str_nat_10: "str_nat 10 = ''10''"
  by (simp add: str_nat.simps digit_char_def)

lemma download_image_other_status:
  assumes "requests_get env u 10 = Inr r" "\<not> (400 \<le> status_code r \<and> status_code r < 600)"
  shows "download_image env u = Inr (content r)"
  using assms by (auto simp: download_image_def download_image_try_def raise_for_status_def)

lemma get_embeddings_downloaded:
  "download_image env u = Inr image_bytes \<Longrightarrow>
     get_embeddings env \<lparr>type = Image_url, input = u\<rparr> =
       (case embed_image env image_bytes of
          Inl e \<Rightarrow> Inl (HTTPException 422 (str_exn e))
        | Inr embedding \<Rightarrow> Inr (success_response embedding))"
  by (simp add: get_embeddings_def get_embeddings_try_def split: sum.splits)

lemma get_with_timeout_silent:
  "server u = None \<Longrightarrow>
     get_with_timeout server u 10 = Inl (ExternalError ''Read timed out. (read timeout=10)'')"
  by (simp add: get_with_timeout_def str_nat_10)

text \<open>
  Claim C4, as amended. For kind \<open>image_url\<close> the bytes are fetched by
  \<open>requests.get\<close> with timeout 10 and with no other timeout. When that call raises (a
  network failure or a timeout), or returns a reply whose status is in 400..599, the
  handler fails with status 422 and a detail that carries the cause: the text of the
  exception, or the status, reason and URL of the reply. It does not hang: under the
  contract of the timeout argument a host that never answers makes the call raise, and
  the reply is 422 with the timeout of 10 in its detail. A reply with any other
  status, 1xx and 3xx included, is taken as the image: its content is what
  \<open>download_image\<close> returns and what is embedded.
\<close>

theorem download_failure_is_422:
  "(requests_get env u 10 = Inl e \<longrightarrow>
      get_embeddings env \<lparr>type = Image_url, input = u\<rparr>
        = Inl (HTTPException 422 (''422: Error downloading image: '' @ str_exn e)))
   \<and> (requests_get env u 10 = Inr r \<longrightarrow> 400 \<le> status_code r \<longrightarrow> status_code r < 600 \<longrightarrow>
      get_embeddings env \<lparr>type = Image_url, input = u\<rparr>
        = Inl (HTTPException 422 (''422: Error downloading image: '' @ str_nat (status_code r)
             @ (if status_code r < 500 then '' Client Error: '' else '' Server Error: '')
             @ reason r @ '' for url: '' @ url r)))
   \<and> download_image (env\<lparr>requests_get := \<lambda>u' t. requests_get env u' 10\<rparr>) u
       = download_image env u
   \<and> (requests_get env u 10 = Inr r \<longrightarrow> \<not> (400 \<le> status_code r \<and> status_code r < 600) \<longrightarrow>
      download_image env u = Inr (content r)
      \<and> get_embeddings env \<lparr>type = Image_url, input = u\<rparr> =
          (case embed_image env (content r) of
             Inl e' \<Rightarrow> Inl (HTTPException 422 (str_exn e'))
           | Inr embedding \<Rightarrow> Inr (success_response embedding)))
   \<and> (requests_get env = get_with_timeout server \<longrightarrow> server u = None \<longrightarrow>
      get_embeddings env \<lparr>type = Image_url, input = u\<rparr>
        = Inl (HTTPException 422
            ''422: Error downloading image: Read timed out. (read timeout=10)''))"
proof (intro conjI impI)
  assume "requests_get env u 10 = Inl e"
  then have "download_image env u
      = Inl (HTTPException 422 (''Error downloading image: '' @ str_exn e))"
    by (rule download_image_get_raises)
  then show "get_embeddings env \<lparr>type = Image_url, input = u\<rparr>
        = Inl (HTTPException 422 (''422: Error downloading image: '' @ str_exn e))"
    using get_embeddings_download_failed [of env u] by (simp add: str_nat_422)
next
  assume "requests_get env u 10 = Inr r" "400 \<le> status_code r" "status_code r < 600"
  then have "download_image env u =
     Inl (HTTPException 422 (''Error downloading image: '' @ str_nat (status_code r)
             @ (if status_code r < 500 then '' Client Error: '' else '' Server Error: '')
             @ reason r @ '' for url: '' @ url r))"
    by (rule download_image_error_status)
  then show "get_embeddings env \<lparr>type = Image_url, input = u\<rparr>
        = Inl (HTTPException 422 (''422: Error downloading image: '' @ str_nat (status_code r)
             @ (if status_code r < 500 then '' Client Error: '' else '' Server Error: '')
             @ reason r @ '' for url: '' @ url r))"
    using get_embeddings_download_failed [of env u] by (simp add: str_nat_422)
next
  show "download_image (env\<lparr>requests_get := \<lambda>u' t. requests_get env u' 10\<rparr>) u
       = download_image env u"
    by (rule download_image_timeout_only)
next
  assume "requests_get env u 10 = Inr r" "\<not> (400 \<le> status_code r \<and> status_code r < 600)"
  then show "download_image env u = Inr (content r)"
    by (rule download_image_other_status)
next
  assume "requests_get env u 10 = Inr r" "\<not> (400 \<le> status_code r \<and> status_code r < 600)"
  then have "download_image env u = Inr (content r)"
    by (rule download_image_other_status)
  then show "get_embeddings env \<lparr>type = Image_url, input = u\<rparr> =
          (case embed_image env (content r) of
             Inl e' \<Rightarrow> Inl (HTTPException 422 (str_exn e'))
           | Inr embedding \<Rightarrow> Inr (success_response embedding))"
    by (rule get_embeddings_downloaded)
next
  assume "requests_get env = get_with_timeout server" "server u = None"
  then have "requests_get env u 10 = Inl (ExternalError ''Read timed out. (read timeout=10)'')"
    by (simp add: get_with_timeout_silent)
  then have "download_image env u = Inl (HTTPException 422
      (''Error downloading image: '' @ str_exn (ExternalError ''Read timed out. (read timeout=10)'')))"
    by (rule download_image_get_raises)
  then show "get_embeddings env \<lparr>type = Image_url, input = u\<rparr>
        = Inl (HTTPException 422
            ''422: Error downloading image: Read timed out. (read timeout=10)'')"
    using get_embeddings_download_failed [of env u] by (simp add: str_nat_422)
qed

theorem download_failure_is_422_witness:
  "get_embeddings (stub_env timed_out) \<lparr>type = Image_url, input = ''http://unreachable.invalid/cat.jpg''\<rparr>
     = Inl (HTTPException 422 ''422: Error downloading image: Read timed out. (read timeout=10)'')
   \<and> get_embeddings
        (stub_env (Inr \<lparr>status_code = 404, reason = ''Not Found'',
                        url = ''http://example.com/cat.jpg'', content = []\<rparr>))
        \<lparr>type = Image_url, input = ''http://example.com/cat.jpg''\<rparr>
     = Inl (HTTPException 422
         ''422: Error downloading image: 404 Client Error: Not Found for url: http://example.com/cat.jpg'')
   \<and> download_image
        (stub_env (Inr \<lparr>status_code = 304, reason = ''Not Modified'',
                        url = ''http://example.com/cat.jpg'', content = []\<rparr>))
        ''http://example.com/cat.jpg'' = Inr []
   \<and> get_embeddings
        (stub_env (Inr \<lparr>status_code = 304, reason = ''Not Modified'',
                        url = ''http://example.com/cat.jpg'', content = []\<rparr>))
        \<lparr>type = Image_url, input = ''http://example.com/cat.jpg''\<rparr>
     = Inl (HTTPException 422 ''cannot identify image file'')
   \<and> get_embeddings ((stub_env timed_out)\<lparr>requests_get := get_with_timeout (\<lambda>_. None)\<rparr>)
        \<lparr>type = Image_url, input = ''http://silent.invalid/cat.jpg''\<rparr>
     = Inl (HTTPException 422 ''422: Error downloading image: Read timed out. (read timeout=10)'')"
proof -
  have a: "requests_get (stub_env timed_out) ''http://unreachable.invalid/cat.jpg'' 10
             = Inl (ExternalError ''Read timed out. (read timeout=10)'')"
    by (simp add: stub_env_def timed_out_def)
  have b: "requests_get
        (stub_env (Inr \<lparr>status_code = 404, reason = ''Not Found'',
                        url = ''http://example.com/cat.jpg'', content = []\<rparr>))
        ''http://example.com/cat.jpg'' 10
      = Inr \<lparr>status_code = 404, reason = ''Not Found'',
             url = ''http://example.com/cat.jpg'', content = []\<rparr>"
    by (simp add: stub_env_def)
  have c: "requests_get
        (stub_env (Inr \<lparr>status_code = 304, reason = ''Not Modified'',
                        url = ''http://example.com/cat.jpg'', content = []\<rparr>))
        ''http://example.com/cat.jpg'' 10
      = Inr \<lparr>status_code = 304, reason = ''Not Modified'',
             url = ''http://example.com/cat.jpg'', content = []\<rparr>"
    by (simp add: stub_env_def)
  have emb: "embed_image
        (stub_env (Inr \<lparr>status_code = 304, reason = ''Not Modified'',
                        url = ''http://example.com/cat.jpg'', content = []\<rparr>)) []
      = Inl (ExternalError ''cannot identify image file'')"
    by (simp add: embed_image_def stub_env_def)
  have n: "str_nat 404 = ''404''" by (simp add: str_nat.simps digit_char_def)
  from download_failure_is_422 [where env = "stub_env timed_out" and u = "''http://unreachable.invalid/cat.jpg''"
             and e = "ExternalError ''Read timed out. (read timeout=10)''"] a
  have first: "get_embeddings (stub_env timed_out)
        \<lparr>type = Image_url, input = ''http://unreachable.invalid/cat.jpg''\<rparr>
     = Inl (HTTPException 422 ''422: Error downloading image: Read timed out. (read timeout=10)'')"
    by simp
  from download_failure_is_422 [where env = "stub_env (Inr \<lparr>status_code = 404, reason = ''Not Found'',
                        url = ''http://example.com/cat.jpg'', content = []\<rparr>)"
             and u = "''http://example.com/cat.jpg''"
             and r = "\<lparr>status_code = 404, reason = ''Not Found'',
                        url = ''http://example.com/cat.jpg'', content = []\<rparr>"] b n
  have second: "get_embeddings
        (stub_env (Inr \<lparr>status_code = 404, reason = ''Not Found'',
                        url = ''http://example.com/cat.jpg'', content = []\<rparr>))
        \<lparr>type = Image_url, input = ''http://example.com/cat.jpg''\<rparr>
     = Inl (HTTPException 422
         ''422: Error downloading image: 404 Client Error: Not Found for url: http://example.com/cat.jpg'')"
    by simp
  from download_failure_is_422 [where env = "stub_env (Inr \<lparr>status_code = 304, reason = ''Not Modified'',
                        url = ''http://example.com/cat.jpg'', content = []\<rparr>)"
             and u = "''http://example.com/cat.jpg''"
             and r = "\<lparr>status_code = 304, reason = ''Not Modified'',
                        url = ''http://example.com/cat.jpg'', content = []\<rparr>"] c emb
  have third: "download_image
        (stub_env (Inr \<lparr>status_code = 304, reason = ''Not Modified'',
                        url = ''http://example.com/cat.jpg'', content = []\<rparr>))
        ''http://example.com/cat.jpg'' = Inr []
   \<and> get_embeddings
        (stub_env (Inr \<lparr>status_code = 304, reason = ''Not Modified'',
                        url = ''http://example.com/cat.jpg'', content = []\<rparr>))
        \<lparr>type = Image_url, input = ''http://example.com/cat.jpg''\<rparr>
     = Inl (HTTPException 422 ''cannot identify image file'')"
    by simp
  from download_failure_is_422 [where env = "(stub_env timed_out)\<lparr>requests_get := get_with_timeout (\<lambda>_. None)\<rparr>"
             and u = "''http://silent.invalid/cat.jpg''" and server = "\<lambda>_. None"]
  have fourth: "get_embeddings ((stub_env timed_out)\<lparr>requests_get := get_with_timeout (\<lambda>_. None)\<rparr>)
        \<lparr>type = Image_url, input = ''http://silent.invalid/cat.jpg''\<rparr>
     = Inl (HTTPException 422 ''422: Error downloading image: Read timed out. (read timeout=10)'')"
    by simp
  from first second third fourth show ?thesis by simp
qed

text \<open>
  The claim as it was stated fails on a status that is neither 2xx nor an error status:
  a reply with status 300 that carries an image is embedded and answered with 200.
\<close>

theorem status_300_accepted_counterexample:
  "get_embeddings
     (stub_env (Inr \<lparr>status_code = 300, reason = ''Multiple Choices'',
                     url = ''http://example.com/cat'', content = gif_1x1\<rparr>))
     \<lparr>type = Image_url, input = ''http://example.com/cat''\<rparr>
   = Inr [(''status'', PStr ''success''), (''embeddings'', PFloats (replicate 512 0)),
          (''embedding_dimension'', PInt 512)]"
  by (simp add: get_embeddings_def get_embeddings_try_def download_image_def
      download_image_try_def raise_for_status_def stub_env_def gif_1x1_def embed_image_def
      index_def success_response_def)

section \<open>The dimension of the embedding\<close>

lemma get_embeddings_Inr:
  "get_embeddings env request = Inr body \<Longrightarrow>
     \<exists>embedding. body = success_response embedding
        \<and> (type request = Text \<longrightarrow> embed_text env (input request) = Inr embedding)"
  by (auto simp: get_embeddings_def get_embeddings_try_def split: sum.splits)

lemma embed_text_Inr:
  "embed_text env s = Inr embedding \<Longrightarrow>
     \<exists>tokens rows. encode_text env tokens = Inr rows \<and> embedding \<in> set rows"
  apply (auto simp: embed_text_def index_def split: sum.splits if_splits)
  by (meson length_greater_0_conv nth_mem)

lemma success_response_fields:
  "map_of (success_response embedding) ''embeddings'' = Some (PFloats embedding)
   \<and> map_of (success_response embedding) ''embedding_dimension''
       = Some (PInt (int (length embedding)))"
  by (simp add: success_response_def)

text \<open>
  Claim C1. In every successful reply of \<open>POST /embeddings\<close> the field
  \<open>embedding_dimension\<close> is the length of the list in the field \<open>embeddings\<close>. For a
  request of kind \<open>text\<close> that succeeds, that length is the output width of the text
  encoder, whenever the encoder has a fixed width (every row it returns has that
  length); the width is 512 for ViT-B/32.
\<close>

theorem embedding_dimension_is_length:
  "get_embeddings env request = Inr body \<Longrightarrow>
     \<exists>embedding.
        map_of body ''embeddings'' = Some (PFloats embedding)
      \<and> map_of body ''embedding_dimension'' = Some (PInt (int (length embedding)))
      \<and> (type request = Text \<longrightarrow>
           (\<forall>tokens rows. encode_text env tokens = Inr rows \<longrightarrow>
                list_all (\<lambda>row. length row = width) rows) \<longrightarrow>
           length embedding = width)"
proof -
  assume "get_embeddings env request = Inr body"
  then obtain embedding where body: "body = success_response embedding"
    and when_text: "type request = Text \<longrightarrow> embed_text env (input request) = Inr embedding"
    using get_embeddings_Inr by blast
  have "length embedding = width"
    if "type request = Text"
      and w: "\<forall>tokens rows. encode_text env tokens = Inr rows \<longrightarrow>
                list_all (\<lambda>row. length row = width) rows"
  proof -
    from that when_text obtain tokens rows
      where "encode_text env tokens = Inr rows" "embedding \<in> set rows"
      using embed_text_Inr by blast
    with w show ?thesis by (auto simp: list_all_iff)
  qed
  with body success_response_fields [of embedding] show ?thesis by blast
qed

lemma stub_env_width:
  "encode_text (stub_env reply) tokens = Inr rows \<Longrightarrow> list_all (\<lambda>row. length row = 512) rows"
  by (auto simp: stub_env_def list_all_iff)

theorem embedding_dimension_is_length_witness:
  "get_embeddings (stub_env timed_out) \<lparr>type = Text, input = ''a photo of a cat''\<rparr>
     = Inr [(''status'', PStr ''success''), (''embeddings'', PFloats (replicate 512 0)),
            (''embedding_dimension'', PInt 512)]
   \<and> (\<exists>embedding.
        map_of [(''status'', PStr ''success''), (''embeddings'', PFloats (replicate 512 (0::int))),
                (''embedding_dimension'', PInt 512)] ''embeddings'' = Some (PFloats embedding)
      \<and> map_of [(''status'', PStr ''success''), (''embeddings'', PFloats (replicate 512 (0::int))),
                (''embedding_dimension'', PInt 512)] ''embedding_dimension''
           = Some (PInt (int (length embedding)))
      \<and> length embedding = 512)"
proof -
  have run: "get_embeddings (stub_env timed_out) \<lparr>type = Text, input = ''a photo of a cat''\<rparr>
     = Inr [(''status'', PStr ''success''), (''embeddings'', PFloats (replicate 512 0)),
            (''embedding_dimension'', PInt 512)]"
    by (simp add: get_embeddings_def get_embeddings_try_def embed_text_def stub_env_def
        index_def success_response_def)
  have w: "\<forall>tokens rows. encode_text (stub_env timed_out) tokens = Inr rows \<longrightarrow>
              list_all (\<lambda>row. length row = 512) rows"
    using stub_env_width by blast
  from embedding_dimension_is_length [OF run, of 512] w run show ?thesis by auto
qed

end
